theory Spec2Isabelle
  imports Main "HOL-Library.Word"
begin

unbundle bit_operations_syntax

section \<open>The Muse marketplace contract (muse\_marketplace.py)\<close>

text \<open>
  The contract is written in PyTeal and runs on the Algorand virtual machine. Three facts
  of that machine shape the embedding.
  \<^item> Every number is an unsigned 64-bit integer and the arithmetic is checked: \<open>+\<close> and
    \<open>*\<close> fail when the result does not fit, \<open>-\<close> fails when the result would be
    negative, \<open>/\<close> truncates. A failure rejects the whole application call. Numbers are
    modelled as \<open>nat\<close> and each operator returns \<open>None\<close> where the machine fails.
  \<^item> A PyTeal expression bound to a Python name is code, not a value: it is evaluated at
    each place of the returned \<open>Seq\<close> where it occurs. An expression that occurs only in
    one branch of an \<open>If\<close> is evaluated only when that branch runs.
  \<^item> An application call is atomic: either every \<open>Assert\<close> holds, no operator fails, and
    the box writes and inner transactions all take effect, or nothing does. An operation is
    therefore a function from a state to either an error or the new state together with the
    inner transactions it submitted, in order.
\<close>

subsection \<open>Checked 64-bit arithmetic\<close>

definition u64_max :: nat where
  "u64_max = 18446744073709551615"

definition add64 :: "nat \<Rightarrow> nat \<Rightarrow> nat option" where
  "add64 a b = (if a + b \<le> u64_max then Some (a + b) else None)"

definition sub64 :: "nat \<Rightarrow> nat \<Rightarrow> nat option" where
  "sub64 a b = (if b \<le> a then Some (a - b) else None)"

definition mul64 :: "nat \<Rightarrow> nat \<Rightarrow> nat option" where
  "mul64 a b = (if a * b \<le> u64_max then Some (a * b) else None)"

subsection \<open>Constants\<close>

definition MUSE_FEE_BPS :: nat where "MUSE_FEE_BPS = 250"
definition MAX_ROYALTY_BPS :: nat where "MAX_ROYALTY_BPS = 2000"
definition BASIS_POINTS :: nat where "BASIS_POINTS = 10000"
definition ROUNDS_PER_MONTH :: nat where "ROUNDS_PER_MONTH = 777600"
definition ANTI_SNIPE_ROUNDS :: nat where "ANTI_SNIPE_ROUNDS = 75"

type_synonym flagword = "64 word"

definition FLAG_IS_RWA :: flagword where "FLAG_IS_RWA = 1"
definition FLAG_RWA_AUTH :: flagword where "FLAG_RWA_AUTH = 2"
definition FLAG_RWA_REDEEMED :: flagword where "FLAG_RWA_REDEEMED = 4"
definition FLAG_ROYALTY_WAIVED :: flagword where "FLAG_ROYALTY_WAIVED = 8"
definition FLAG_IN_AUCTION :: flagword where "FLAG_IN_AUCTION = 16"
definition FLAG_COLLAB_PENDING :: flagword where "FLAG_COLLAB_PENDING = 32"

subsection \<open>Boxes and global state\<close>

text \<open>An address is 32 bytes; the contract only compares addresses.\<close>

type_synonym addr = "256 word"

definition zero_address :: addr where
  "zero_address = 0"

text \<open>The box \<open>NFT + itob(asset_id)\<close>, bytes 0 to 96.\<close>

record nft =
  asset_id :: nat
  price :: nat
  royalty_bps :: nat
  floor_bps :: nat
  decay_start :: nat
  buyout_price :: nat
  transfers :: nat
  flags :: flagword
  creator :: addr

text \<open>
  The box \<open>AUC + itob(asset_id)\<close>, 88 bytes. \<open>start_auction\<close> writes the asset id to bytes
  0 to 8 and then overwrites the same bytes with the reserve price, so the first slot holds
  the reserve price for the whole life of the auction.
\<close>

record auction =
  first_slot :: nat
  end_round :: nat
  highest_bid :: nat
  highest_bidder :: addr
  seller :: addr

text \<open>The box \<open>SPL + itob(asset_id)\<close>: four entries of 40 bytes.\<close>

record split_entry =
  address :: addr
  share_bps :: nat
  accepted :: nat

record split_box =
  entry0 :: split_entry
  entry1 :: split_entry
  entry2 :: split_entry
  entry3 :: split_entry

definition entries :: "split_box \<Rightarrow> split_entry list" where
  "entries b = [entry0 b, entry1 b, entry2 b, entry3 b]"

text \<open>The box \<open>RWA + itob(asset_id)\<close>.\<close>

record rwa =
  physical_hash :: "256 word"
  custodian :: addr
  authenticator :: addr
  redemption_round :: nat

record muse_state =
  muse_treasury :: addr
  total_volume :: nat
  total_royalties_paid :: nat
  nft_count :: nat
  live_auctions :: nat
  nft_boxes :: "nat \<rightharpoonup> nft"
  auc_boxes :: "nat \<rightharpoonup> auction"
  spl_boxes :: "nat \<rightharpoonup> split_box"
  rwa_boxes :: "nat \<rightharpoonup> rwa"

text \<open>What the machine tells a call: the round, the caller, the application's own address
  and the address that deployed the application.\<close>

record env =
  cur_round :: nat
  sender :: addr
  app_address :: addr
  creator_address :: addr

text \<open>The payment transaction attached to a call.\<close>

record payment =
  receiver :: addr
  amount :: nat

text \<open>
  The inner transactions a call submits. \<open>AssetTransfer a from to n\<close> carries the optional
  \<open>asset_sender\<close> field; \<open>AssetConfig frozen reserve\<close> creates an asset (name, unit, URL and
  hash play no part in the contract's logic and are left out); \<open>AssetFreeze a acct frozen\<close>.
\<close>

datatype effect =
    Payment addr nat
  | AssetTransfer nat "addr option" addr nat
  | AssetConfig nat addr
  | AssetFreeze nat addr nat

text \<open>One error for each \<open>Assert\<close> of the source, and \<open>Panic\<close> for a failing operator
  (arithmetic out of range, a read from a box that does not exist).\<close>

datatype error =
    NoBox
  | RoyaltyExceeds
  | FloorAboveRoyalty
  | NotRwa
  | NotAuthenticator
  | AlreadyAuthenticated
  | NotCustodian
  | AlreadyRedeemed
  | NotYetAuthenticated
  | NotCreator
  | SplitExceeds
  | NoRegistry
  | NotCoCreator
  | NftMissing
  | AuctionOnly
  | InAuction
  | RwaRedeemed
  | RwaNotAuthenticated
  | WrongReceiver
  | IncorrectPayment
  | BuyoutDisabled
  | AlreadyWaived
  | IncorrectBuyout
  | ZeroDuration
  | NoAuction
  | AuctionEnded
  | BidTooLow
  | AuctionRunning
  | NotAdmin
  | Panic

type_synonym outcome = "error + muse_state \<times> effect list"

subsection \<open>Deployment\<close>

definition create :: "addr \<Rightarrow> muse_state" where
  "create treasury =
     \<lparr>muse_treasury = treasury, total_volume = 0, total_royalties_paid = 0,
      nft_count = 0, live_auctions = 0,
      nft_boxes = Map.empty, auc_boxes = Map.empty,
      spl_boxes = Map.empty, rwa_boxes = Map.empty\<rparr>"

subsection \<open>The royalty helpers\<close>

text \<open>
  The expression \<open>decayed\<close> of \<open>current_royalty_bps\<close>:
  \<open>royalty - ((royalty - floor_bps) * (rounds_elapsed / ROUNDS_PER_MONTH) / Int(100))\<close> with
  \<open>rounds_elapsed = Global.round() - decay_start\<close>, each operator checked.
\<close>

definition decayed :: "nft \<Rightarrow> nat \<Rightarrow> nat option" where
  "decayed r now =
     (case sub64 now (decay_start r) of
        None \<Rightarrow> None
      | Some rounds_elapsed \<Rightarrow>
          (case sub64 (royalty_bps r) (floor_bps r) of
             None \<Rightarrow> None
           | Some span \<Rightarrow>
               (case mul64 span (rounds_elapsed div ROUNDS_PER_MONTH) of
                  None \<Rightarrow> None
                | Some pr \<Rightarrow> sub64 (royalty_bps r) (pr div 100))))"

definition current_royalty_bps :: "muse_state \<Rightarrow> nat \<Rightarrow> nat \<Rightarrow> error + nat" where
  "current_royalty_bps s now aid =
     (case nft_boxes s aid of
        None \<Rightarrow> Inl NoBox
      | Some r \<Rightarrow>
          if flags r AND FLAG_ROYALTY_WAIVED \<noteq> 0 then Inr 0
          else if decay_start r = 0 then Inr (royalty_bps r)
          else if now < decay_start r then Inr (royalty_bps r)
          else (case decayed r now of
                  None \<Rightarrow> Inl Panic
                | Some d \<Rightarrow> Inr (if d > floor_bps r then d else floor_bps r)))"

text \<open>
  The \<open>For\<close> loop of \<open>distribute_royalties\<close> over the entries of the split box: one payment
  of \<open>total_royalty * share_bps / BASIS_POINTS\<close> for each entry, added to \<open>paid_to_splits\<close>.
\<close>

fun split_loop :: "nat \<Rightarrow> split_entry list \<Rightarrow> nat \<Rightarrow> (effect list \<times> nat) option" where
  "split_loop total_royalty [] paid = Some ([], paid)"
| "split_loop total_royalty (e # es) paid =
     (case mul64 total_royalty (share_bps e) of
        None \<Rightarrow> None
      | Some pr \<Rightarrow>
          (case add64 paid (pr div BASIS_POINTS) of
             None \<Rightarrow> None
           | Some paid' \<Rightarrow>
               (case split_loop total_royalty es paid' of
                  None \<Rightarrow> None
                | Some (effs, tot) \<Rightarrow>
                    Some (Payment (address e) (pr div BASIS_POINTS) # effs, tot))))"

definition distribute_royalties :: "muse_state \<Rightarrow> nat \<Rightarrow> nat \<Rightarrow> nat \<Rightarrow> outcome" where
  "distribute_royalties s aid sale_price rbps =
     (case nft_boxes s aid of
        None \<Rightarrow> Inl Panic
      | Some r \<Rightarrow>
          (case mul64 sale_price MUSE_FEE_BPS of
             None \<Rightarrow> Inl Panic
           | Some fee_prod \<Rightarrow>
               (case mul64 sale_price rbps of
                  None \<Rightarrow> Inl Panic
                | Some roy_prod \<Rightarrow>
                    (case split_loop (roy_prod div BASIS_POINTS)
                            (case spl_boxes s aid of None \<Rightarrow> [] | Some b \<Rightarrow> entries b) 0 of
                       None \<Rightarrow> Inl Panic
                     | Some (effs, paid) \<Rightarrow>
                         (case add64 (total_royalties_paid s) (roy_prod div BASIS_POINTS) of
                            None \<Rightarrow> Inl Panic
                          | Some trp \<Rightarrow>
                              Inr (s\<lparr>total_royalties_paid := trp\<rparr>,
                                   Payment (muse_treasury s) (fee_prod div BASIS_POINTS) # effs @
                                   (if roy_prod div BASIS_POINTS > paid
                                    then [Payment (creator r) (roy_prod div BASIS_POINTS - paid)]
                                    else [])))))))"

text \<open>
  The amount paid to the seller in \<open>buy_nft\<close> and \<open>settle_auction\<close>:
  \<open>p - (p * royalty_bps / BASIS_POINTS) - (p * MUSE_FEE_BPS / BASIS_POINTS)\<close>.
\<close>

definition net_to_seller :: "nat \<Rightarrow> nat \<Rightarrow> nat option" where
  "net_to_seller p rbps =
     (case mul64 p rbps of
        None \<Rightarrow> None
      | Some roy_prod \<Rightarrow>
          (case sub64 p (roy_prod div BASIS_POINTS) of
             None \<Rightarrow> None
           | Some rest \<Rightarrow>
               (case mul64 p MUSE_FEE_BPS of
                  None \<Rightarrow> None
                | Some fee_prod \<Rightarrow> sub64 rest (fee_prod div BASIS_POINTS))))"

subsection \<open>Minting\<close>

text \<open>
  The asset id is \<open>InnerTxn.created_asset_id()\<close>: the ledger chooses it, so it is an input
  of the model. \<open>BoxCreate\<close> followed by \<open>BoxReplace\<close> at offset 0 writes the whole record.
\<close>

definition mint_nft ::
  "env \<Rightarrow> muse_state \<Rightarrow> nat \<Rightarrow> nat \<Rightarrow> nat \<Rightarrow> nat \<Rightarrow> nat \<Rightarrow> nat \<Rightarrow> outcome" where
  "mint_nft e s new_id price_microalgos rbps fbps decay_after_rounds buyout =
     (if \<not> rbps \<le> MAX_ROYALTY_BPS then Inl RoyaltyExceeds
      else if \<not> fbps \<le> rbps then Inl FloorAboveRoyalty
      else
        (case (if decay_after_rounds = 0 then Some 0
               else add64 (cur_round e) decay_after_rounds) of
           None \<Rightarrow> Inl Panic
         | Some ds \<Rightarrow>
             (case add64 (nft_count s) 1 of
                None \<Rightarrow> Inl Panic
              | Some n \<Rightarrow>
                  Inr (s\<lparr>nft_count := n,
                         nft_boxes := (nft_boxes s)(new_id \<mapsto>
                           \<lparr>asset_id = new_id, price = price_microalgos, royalty_bps = rbps,
                            floor_bps = fbps, decay_start = ds, buyout_price = buyout,
                            transfers = 0, flags = 0, creator = sender e\<rparr>)\<rparr>,
                       [AssetConfig 0 (sender e)]))))"

definition mint_rwa ::
  "env \<Rightarrow> muse_state \<Rightarrow> nat \<Rightarrow> 256 word \<Rightarrow> addr \<Rightarrow> addr \<Rightarrow>
   nat \<Rightarrow> nat \<Rightarrow> nat \<Rightarrow> nat \<Rightarrow> nat \<Rightarrow> outcome" where
  "mint_rwa e s new_id phys cust auth price_microalgos rbps fbps decay_after_rounds buyout =
     (if \<not> rbps \<le> MAX_ROYALTY_BPS then Inl RoyaltyExceeds
      else
        (case (if decay_after_rounds = 0 then Some 0
               else add64 (cur_round e) decay_after_rounds) of
           None \<Rightarrow> Inl Panic
         | Some ds \<Rightarrow>
             (case add64 (nft_count s) 1 of
                None \<Rightarrow> Inl Panic
              | Some n \<Rightarrow>
                  Inr (s\<lparr>nft_count := n,
                         nft_boxes := (nft_boxes s)(new_id \<mapsto>
                           \<lparr>asset_id = new_id, price = price_microalgos, royalty_bps = rbps,
                            floor_bps = fbps, decay_start = ds, buyout_price = buyout,
                            transfers = 0, flags = FLAG_IS_RWA, creator = sender e\<rparr>),
                         rwa_boxes := (rwa_boxes s)(new_id \<mapsto>
                           \<lparr>physical_hash = phys, custodian = cust, authenticator = auth,
                            redemption_round = 0\<rparr>)\<rparr>,
                       [AssetConfig 1 cust]))))"

subsection \<open>The life of a physical asset\<close>

definition validate_physical_asset :: "env \<Rightarrow> muse_state \<Rightarrow> nat \<Rightarrow> outcome" where
  "validate_physical_asset e s aid =
     (case rwa_boxes s aid of
        None \<Rightarrow> Inl NotRwa
      | Some w \<Rightarrow>
          (case nft_boxes s aid of
             None \<Rightarrow> Inl NoBox
           | Some r \<Rightarrow>
               if authenticator w \<noteq> sender e then Inl NotAuthenticator
               else if flags r AND FLAG_RWA_AUTH \<noteq> 0 then Inl AlreadyAuthenticated
               else Inr (s\<lparr>nft_boxes := (nft_boxes s)(aid \<mapsto>
                              r\<lparr>flags := flags r OR FLAG_RWA_AUTH\<rparr>)\<rparr>,
                         [AssetFreeze aid (sender e) 0])))"

text \<open>\<open>redeem_physical_asset\<close> has no \<open>Assert\<close> on the NFT box: reading the flags of a
  box that does not exist fails in the machine. The argument \<open>tracking_info\<close> is not used
  by the source.\<close>

definition redeem_physical_asset :: "env \<Rightarrow> muse_state \<Rightarrow> nat \<Rightarrow> outcome" where
  "redeem_physical_asset e s aid =
     (case rwa_boxes s aid of
        None \<Rightarrow> Inl NotRwa
      | Some w \<Rightarrow>
          if custodian w \<noteq> sender e then Inl NotCustodian
          else
            (case nft_boxes s aid of
               None \<Rightarrow> Inl Panic
             | Some r \<Rightarrow>
                 if flags r AND FLAG_RWA_REDEEMED \<noteq> 0 then Inl AlreadyRedeemed
                 else if flags r AND FLAG_RWA_AUTH = 0 then Inl NotYetAuthenticated
                 else Inr (s\<lparr>rwa_boxes := (rwa_boxes s)(aid \<mapsto>
                                w\<lparr>redemption_round := cur_round e\<rparr>),
                              nft_boxes := (nft_boxes s)(aid \<mapsto>
                                r\<lparr>flags := (flags r OR FLAG_RWA_REDEEMED)
                                              AND NOT FLAG_IN_AUCTION\<rparr>)\<rparr>,
                           [])))"

subsection \<open>The co-creator registry\<close>

text \<open>The shares arrive as 32-bit values and are stored in four bytes each; the check on
  their sum keeps every stored share at or below 10000, so nothing is cut off.\<close>

definition register_co_creators ::
  "env \<Rightarrow> muse_state \<Rightarrow> nat \<Rightarrow> addr \<Rightarrow> nat \<Rightarrow> addr \<Rightarrow> nat \<Rightarrow> addr \<Rightarrow> nat \<Rightarrow>
   addr \<Rightarrow> nat \<Rightarrow> outcome" where
  "register_co_creators e s aid addr_1 share_bps_1 addr_2 share_bps_2
       addr_3 share_bps_3 addr_4 share_bps_4 =
     (case nft_boxes s aid of
        None \<Rightarrow> Inl NoBox
      | Some r \<Rightarrow>
          if creator r \<noteq> sender e then Inl NotCreator
          else if \<not> share_bps_1 + share_bps_2 + share_bps_3 + share_bps_4 \<le> BASIS_POINTS
          then Inl SplitExceeds
          else Inr (s\<lparr>spl_boxes := (spl_boxes s)(aid \<mapsto>
                         \<lparr>entry0 = \<lparr>address = addr_1, share_bps = share_bps_1, accepted = 0\<rparr>,
                          entry1 = \<lparr>address = addr_2, share_bps = share_bps_2, accepted = 0\<rparr>,
                          entry2 = \<lparr>address = addr_3, share_bps = share_bps_3, accepted = 0\<rparr>,
                          entry3 = \<lparr>address = addr_4, share_bps = share_bps_4, accepted = 0\<rparr>\<rparr>),
                       nft_boxes := (nft_boxes s)(aid \<mapsto>
                         r\<lparr>flags := flags r OR FLAG_COLLAB_PENDING\<rparr>)\<rparr>,
                    []))"

definition accept_entry :: "addr \<Rightarrow> split_entry \<Rightarrow> split_entry" where
  "accept_entry who x = (if address x = who then x\<lparr>accepted := 1\<rparr> else x)"

definition accept_collaboration :: "env \<Rightarrow> muse_state \<Rightarrow> nat \<Rightarrow> outcome" where
  "accept_collaboration e s aid =
     (case spl_boxes s aid of
        None \<Rightarrow> Inl NoRegistry
      | Some b \<Rightarrow>
          if address (entry0 b) = sender e \<or> address (entry1 b) = sender e \<or>
             address (entry2 b) = sender e \<or> address (entry3 b) = sender e
          then Inr (s\<lparr>spl_boxes := (spl_boxes s)(aid \<mapsto>
                         \<lparr>entry0 = accept_entry (sender e) (entry0 b),
                          entry1 = accept_entry (sender e) (entry1 b),
                          entry2 = accept_entry (sender e) (entry2 b),
                          entry3 = accept_entry (sender e) (entry3 b)\<rparr>)\<rparr>,
                    [])
          else Inl NotCoCreator)"

subsection \<open>Buying at the list price\<close>

definition buy_nft :: "env \<Rightarrow> muse_state \<Rightarrow> nat \<Rightarrow> payment \<Rightarrow> outcome" where
  "buy_nft e s aid pay =
     (case nft_boxes s aid of
        None \<Rightarrow> Inl NftMissing
      | Some r \<Rightarrow>
          if \<not> price r > 0 then Inl AuctionOnly
          else if flags r AND FLAG_IN_AUCTION \<noteq> 0 then Inl InAuction
          else if flags r AND FLAG_RWA_REDEEMED \<noteq> 0 then Inl RwaRedeemed
          else if flags r AND FLAG_IS_RWA \<noteq> 0 \<and> flags r AND FLAG_RWA_AUTH = 0
          then Inl RwaNotAuthenticated
          else if receiver pay \<noteq> app_address e then Inl WrongReceiver
          else if amount pay \<noteq> price r then Inl IncorrectPayment
          else
            (case current_royalty_bps s (cur_round e) aid of
               Inl err \<Rightarrow> Inl err
             | Inr rbps \<Rightarrow>
                 (case (if rbps > 0 then distribute_royalties s aid (price r) rbps
                        else Inr (s, [])) of
                    Inl err \<Rightarrow> Inl err
                  | Inr (s1, effs) \<Rightarrow>
                      (case net_to_seller (price r) rbps of
                         None \<Rightarrow> Inl Panic
                       | Some net \<Rightarrow>
                           (case add64 (transfers r) 1 of
                              None \<Rightarrow> Inl Panic
                            | Some t \<Rightarrow>
                                (case add64 (total_volume s1) (price r) of
                                   None \<Rightarrow> Inl Panic
                                 | Some vol \<Rightarrow>
                                     Inr (s1\<lparr>nft_boxes := (nft_boxes s1)(aid \<mapsto>
                                               r\<lparr>transfers := t\<rparr>),
                                             total_volume := vol\<rparr>,
                                          effs @ [Payment (creator r) net,
                                                  AssetTransfer aid None (sender e) 1])))))))"

subsection \<open>Buying out the royalty\<close>

definition buy_out_royalty :: "env \<Rightarrow> muse_state \<Rightarrow> nat \<Rightarrow> payment \<Rightarrow> outcome" where
  "buy_out_royalty e s aid pay =
     (case nft_boxes s aid of
        None \<Rightarrow> Inl NoBox
      | Some r \<Rightarrow>
          if \<not> buyout_price r > 0 then Inl BuyoutDisabled
          else if flags r AND FLAG_ROYALTY_WAIVED \<noteq> 0 then Inl AlreadyWaived
          else if amount pay \<noteq> buyout_price r then Inl IncorrectBuyout
          else if receiver pay \<noteq> app_address e then Inl WrongReceiver
          else
            (case mul64 (buyout_price r) 9500 of
               None \<Rightarrow> Inl Panic
             | Some cut_prod \<Rightarrow>
                 Inr (s\<lparr>nft_boxes := (nft_boxes s)(aid \<mapsto>
                           r\<lparr>flags := flags r OR FLAG_ROYALTY_WAIVED, buyout_price := 0\<rparr>)\<rparr>,
                      [Payment (creator r) (cut_prod div BASIS_POINTS),
                       Payment (muse_treasury s)
                         (buyout_price r - cut_prod div BASIS_POINTS)])))"

subsection \<open>The auction\<close>

definition start_auction :: "env \<Rightarrow> muse_state \<Rightarrow> nat \<Rightarrow> nat \<Rightarrow> nat \<Rightarrow> outcome" where
  "start_auction e s aid duration_rounds reserve_price =
     (case nft_boxes s aid of
        None \<Rightarrow> Inl NoBox
      | Some r \<Rightarrow>
          if flags r AND FLAG_IN_AUCTION \<noteq> 0 then Inl InAuction
          else if flags r AND FLAG_RWA_REDEEMED \<noteq> 0 then Inl RwaRedeemed
          else if \<not> duration_rounds > 0 then Inl ZeroDuration
          else
            (case add64 (cur_round e) duration_rounds of
               None \<Rightarrow> Inl Panic
             | Some er \<Rightarrow>
                 (case add64 (live_auctions s) 1 of
                    None \<Rightarrow> Inl Panic
                  | Some la \<Rightarrow>
                      Inr (s\<lparr>auc_boxes := (auc_boxes s)(aid \<mapsto>
                                \<lparr>first_slot = reserve_price, end_round = er, highest_bid = 0,
                                 highest_bidder = zero_address, seller = sender e\<rparr>),
                              nft_boxes := (nft_boxes s)(aid \<mapsto>
                                r\<lparr>flags := flags r OR FLAG_IN_AUCTION\<rparr>),
                              live_auctions := la\<rparr>,
                           [AssetTransfer aid (Some (sender e)) (app_address e) 1]))))"

text \<open>
  \<open>place_bid\<close> reads \<open>end_round\<close>, \<open>highest_bid\<close> and \<open>highest_bidder\<close> from the box and
  nothing else: the first slot, where the reserve price lies, is never read. The
  subtraction \<open>end_round - Global.round()\<close> follows the assertion
  \<open>Global.round() < end_round\<close>, so it cannot fail.
\<close>

definition place_bid :: "env \<Rightarrow> muse_state \<Rightarrow> nat \<Rightarrow> payment \<Rightarrow> outcome" where
  "place_bid e s aid pay =
     (case auc_boxes s aid of
        None \<Rightarrow> Inl NoAuction
      | Some a \<Rightarrow>
          if \<not> cur_round e < end_round a then Inl AuctionEnded
          else if \<not> amount pay > highest_bid a then Inl BidTooLow
          else if receiver pay \<noteq> app_address e then Inl WrongReceiver
          else
            (case (if end_round a - cur_round e < ANTI_SNIPE_ROUNDS
                   then add64 (end_round a) ANTI_SNIPE_ROUNDS
                   else Some (end_round a)) of
               None \<Rightarrow> Inl Panic
             | Some er \<Rightarrow>
                 Inr (s\<lparr>auc_boxes := (auc_boxes s)(aid \<mapsto>
                           a\<lparr>highest_bid := amount pay, highest_bidder := sender e,
                             end_round := er\<rparr>)\<rparr>,
                      (if highest_bidder a \<noteq> zero_address
                       then [Payment (highest_bidder a) (highest_bid a)]
                       else []))))"

text \<open>
  \<open>settle_auction\<close>. Both branches read the NFT box (the flags, and the transfer count in
  the winner's branch), which fails when the box does not exist.
\<close>

definition settle_auction :: "env \<Rightarrow> muse_state \<Rightarrow> nat \<Rightarrow> outcome" where
  "settle_auction e s aid =
     (case auc_boxes s aid of
        None \<Rightarrow> Inl NoAuction
      | Some a \<Rightarrow>
          if \<not> cur_round e \<ge> end_round a then Inl AuctionRunning
          else
            (case nft_boxes s aid of
               None \<Rightarrow> Inl Panic
             | Some r \<Rightarrow>
                 (case
                    (if highest_bidder a = zero_address
                     then Inr (s, r, [AssetTransfer aid None (seller a) 1])
                     else
                       (case current_royalty_bps s (cur_round e) aid of
                          Inl err \<Rightarrow> Inl err
                        | Inr rbps \<Rightarrow>
                            (case (if rbps > 0
                                   then distribute_royalties s aid (highest_bid a) rbps
                                   else Inr (s, [])) of
                               Inl err \<Rightarrow> Inl err
                             | Inr (s1, effs) \<Rightarrow>
                                 (case net_to_seller (highest_bid a) rbps of
                                    None \<Rightarrow> Inl Panic
                                  | Some net \<Rightarrow>
                                      (case add64 (transfers r) 1 of
                                         None \<Rightarrow> Inl Panic
                                       | Some t \<Rightarrow>
                                           (case add64 (total_volume s1) (highest_bid a) of
                                              None \<Rightarrow> Inl Panic
                                            | Some vol \<Rightarrow>
                                                Inr (s1\<lparr>total_volume := vol\<rparr>,
                                                     r\<lparr>transfers := t\<rparr>,
                                                     effs @
                                                     [Payment (seller a) net,
                                                      AssetTransfer aid None
                                                        (highest_bidder a) 1])))))))
                  of
                    Inl err \<Rightarrow> Inl err
                  | Inr (s2, r2, effs2) \<Rightarrow>
                      (case sub64 (live_auctions s2) 1 of
                         None \<Rightarrow> Inl Panic
                       | Some la \<Rightarrow>
                           Inr (s2\<lparr>nft_boxes := (nft_boxes s2)(aid \<mapsto>
                                     r2\<lparr>flags := flags r AND NOT FLAG_IN_AUCTION\<rparr>),
                                   auc_boxes := (auc_boxes s2)(aid := None),
                                   live_auctions := la\<rparr>,
                                effs2)))))"

subsection \<open>Administration\<close>

definition update_treasury :: "env \<Rightarrow> muse_state \<Rightarrow> addr \<Rightarrow> outcome" where
  "update_treasury e s new_treasury =
     (if sender e \<noteq> creator_address e then Inl NotAdmin
      else Inr (s\<lparr>muse_treasury := new_treasury\<rparr>, []))"

subsection \<open>Calls and runs of the contract\<close>

text \<open>The external methods of the application, with their arguments.\<close>

datatype call =
    MintNft nat nat nat nat nat nat
  | MintRwa nat "256 word" addr addr nat nat nat nat nat
  | ValidatePhysicalAsset nat
  | RedeemPhysicalAsset nat
  | RegisterCoCreators nat addr nat addr nat addr nat addr nat
  | AcceptCollaboration nat
  | BuyNft nat payment
  | BuyOutRoyalty nat payment
  | StartAuction nat nat nat
  | PlaceBid nat payment
  | SettleAuction nat
  | UpdateTreasury addr

fun exec :: "env \<Rightarrow> muse_state \<Rightarrow> call \<Rightarrow> outcome" where
  "exec e s (MintNft i p rb fb d b) = mint_nft e s i p rb fb d b"
| "exec e s (MintRwa i ph cu au p rb fb d b) = mint_rwa e s i ph cu au p rb fb d b"
| "exec e s (ValidatePhysicalAsset i) = validate_physical_asset e s i"
| "exec e s (RedeemPhysicalAsset i) = redeem_physical_asset e s i"
| "exec e s (RegisterCoCreators i a1 s1 a2 s2 a3 s3 a4 s4) =
     register_co_creators e s i a1 s1 a2 s2 a3 s3 a4 s4"
| "exec e s (AcceptCollaboration i) = accept_collaboration e s i"
| "exec e s (BuyNft i pay) = buy_nft e s i pay"
| "exec e s (BuyOutRoyalty i pay) = buy_out_royalty e s i pay"
| "exec e s (StartAuction i d r) = start_auction e s i d r"
| "exec e s (PlaceBid i pay) = place_bid e s i pay"
| "exec e s (SettleAuction i) = settle_auction e s i"
| "exec e s (UpdateTreasury t) = update_treasury e s t"

text \<open>
  The ledger gives every new asset an id that no earlier asset has, so a mint never meets
  a box written for the same id.
\<close>

fun fresh_asset :: "muse_state \<Rightarrow> call \<Rightarrow> bool" where
  "fresh_asset s (MintNft i p rb fb d b) = (nft_boxes s i = None)"
| "fresh_asset s (MintRwa i ph cu au p rb fb d b) = (nft_boxes s i = None)"
| "fresh_asset s c = True"

inductive step :: "muse_state \<Rightarrow> muse_state \<Rightarrow> bool" where
  call: "exec e s c = Inr (s', effs) \<Longrightarrow> fresh_asset s c \<Longrightarrow> step s s'"

inductive reaches :: "muse_state \<Rightarrow> muse_state \<Rightarrow> bool" where
  here: "reaches s s"
| later: "reaches s s' \<Longrightarrow> step s' s'' \<Longrightarrow> reaches s s''"

text \<open>The state of a physical asset, read from the two flags of its record.\<close>

datatype rwa_phase = MINTED | AUTHENTICATED | REDEEMED

definition phase :: "nft \<Rightarrow> rwa_phase" where
  "phase r =
     (if flags r AND FLAG_RWA_REDEEMED \<noteq> 0 then REDEEMED
      else if flags r AND FLAG_RWA_AUTH \<noteq> 0 then AUTHENTICATED
      else MINTED)"

text \<open>A run of calls, each with its own round and caller. It stops at the first call
  that fails; the inner transactions of the calls are collected in order.\<close>

fun run :: "muse_state \<Rightarrow> (env \<times> call) list \<Rightarrow> outcome" where
  "run s [] = Inr (s, [])"
| "run s ((e, c) # cs) =
     (case exec e s c of
        Inl err \<Rightarrow> Inl err
      | Inr (s', effs) \<Rightarrow>
          (case run s' cs of
             Inl err \<Rightarrow> Inl err
           | Inr (s'', effs') \<Rightarrow> Inr (s'', effs @ effs')))"

text \<open>\<open>n\<close> bids on asset \<open>aid\<close>, each placed in the last round before the end of the
  auction as it then stands and each one unit above the bid before it.\<close>

fun late_bids :: "addr \<Rightarrow> addr \<Rightarrow> nat \<Rightarrow> nat \<Rightarrow> nat \<Rightarrow> nat \<Rightarrow> (env \<times> call) list" where
  "late_bids app who aid er hb 0 = []"
| "late_bids app who aid er hb (Suc n) =
     (\<lparr>cur_round = er - 1, sender = who, app_address = app, creator_address = who\<rparr>,
      PlaceBid aid \<lparr>receiver = app, amount = hb + 1\<rparr>)
     # late_bids app who aid (er + ANTI_SNIPE_ROUNDS) (hb + 1) n"

subsection \<open>The amounts of the specification\<close>

text \<open>
  The specification names the parts of a sale: the platform fee, the total royalty, the
  share of each split entry, the remainder of the royalty and the seller's net amount.
  They are written here as the specification states them, on unbounded numbers, to be
  compared with what the contract pays.
\<close>

definition spec_muse_fee :: "nat \<Rightarrow> nat" where
  "spec_muse_fee sale_price = sale_price * 250 div 10000"

definition spec_total_royalty :: "nat \<Rightarrow> nat \<Rightarrow> nat" where
  "spec_total_royalty sale_price rbps = sale_price * rbps div 10000"

definition spec_share_amount :: "nat \<Rightarrow> nat \<Rightarrow> split_entry \<Rightarrow> nat" where
  "spec_share_amount sale_price rbps x = spec_total_royalty sale_price rbps * share_bps x div 10000"

definition spec_shares_paid :: "nat \<Rightarrow> nat \<Rightarrow> split_entry list \<Rightarrow> nat" where
  "spec_shares_paid sale_price rbps xs = sum_list (map (spec_share_amount sale_price rbps) xs)"

definition spec_remainder :: "nat \<Rightarrow> nat \<Rightarrow> split_entry list \<Rightarrow> nat" where
  "spec_remainder sale_price rbps xs =
     spec_total_royalty sale_price rbps - spec_shares_paid sale_price rbps xs"

definition spec_seller_net :: "nat \<Rightarrow> nat \<Rightarrow> nat" where
  "spec_seller_net sale_price rbps =
     sale_price - spec_total_royalty sale_price rbps - spec_muse_fee sale_price"

text \<open>The payments a sale is expected to submit, in the contract's order: fee, shares,
  remainder when it is positive, seller.\<close>

definition spec_sale_payments ::
  "addr \<Rightarrow> addr \<Rightarrow> addr \<Rightarrow> split_entry list \<Rightarrow> nat \<Rightarrow> nat \<Rightarrow> effect list" where
  "spec_sale_payments treasury creat sell xs sale_price rbps =
     Payment treasury (spec_muse_fee sale_price) #
     map (\<lambda>x. Payment (address x) (spec_share_amount sale_price rbps x)) xs @
     (if spec_remainder sale_price rbps xs > 0
      then [Payment creat (spec_remainder sale_price rbps xs)] else []) @
     [Payment sell (spec_seller_net sale_price rbps)]"

fun amount_paid :: "effect \<Rightarrow> nat" where
  "amount_paid (Payment to n) = n"
| "amount_paid (AssetTransfer a from to n) = 0"
| "amount_paid (AssetConfig frozen res) = 0"
| "amount_paid (AssetFreeze a acct frozen) = 0"

definition payments_total :: "effect list \<Rightarrow> nat" where
  "payments_total effs = sum_list (map amount_paid effs)"

text \<open>The split entries registered for an asset; none when there is no split box.\<close>

definition registered_entries :: "muse_state \<Rightarrow> nat \<Rightarrow> split_entry list" where
  "registered_entries s aid = (case spl_boxes s aid of None \<Rightarrow> [] | Some b \<Rightarrow> entries b)"

subsection \<open>A concrete marketplace\<close>

text \<open>
  A small run used to evaluate the theorems below on numbers: the application lives at
  address 2, the treasury is address 9, address 1 mints asset 7.
\<close>

definition at_round :: "nat \<Rightarrow> addr \<Rightarrow> env" where
  "at_round n who = \<lparr>cur_round = n, sender = who, app_address = 2, creator_address = 3\<rparr>"

definition pays :: "nat \<Rightarrow> payment" where
  "pays n = \<lparr>receiver = 2, amount = n\<rparr>"

text \<open>The state after a run from the freshly deployed application.\<close>

definition state_after :: "(env \<times> call) list \<Rightarrow> muse_state" where
  "state_after cs = (case run (create 9) cs of Inl err \<Rightarrow> create 9 | Inr (s, effs) \<Rightarrow> s)"

text \<open>Asset 7 minted for auction only, put up for auction with a reserve price of 100
  until round 1001; then the same auction after a first bid of 150 by address 4.\<close>

definition auction_open :: muse_state where
  "auction_open = state_after
     [(at_round 0 1, MintNft 7 0 1000 0 0 0),
      (at_round 1 1, StartAuction 7 1000 100)]"

definition bid_once :: muse_state where
  "bid_once = state_after
     [(at_round 0 1, MintNft 7 0 1000 0 0 0),
      (at_round 1 1, StartAuction 7 1000 100),
      (at_round 2 4, PlaceBid 7 (pays 150))]"

text \<open>Asset 7 listed at 1000000 with a royalty of 1000 basis points and the four shares
  5000, 2500, 1500 and 1000 registered; then the same asset in an auction that address 4
  leads with a bid of 1000000.\<close>

definition listed_with_splits :: muse_state where
  "listed_with_splits = state_after
     [(at_round 0 1, MintNft 7 1000000 1000 0 0 0),
      (at_round 0 1, RegisterCoCreators 7 11 5000 12 2500 13 1500 14 1000)]"

definition auction_led :: muse_state where
  "auction_led = state_after
     [(at_round 0 1, MintNft 7 1000000 1000 0 0 0),
      (at_round 0 1, RegisterCoCreators 7 11 5000 12 2500 13 1500 14 1000),
      (at_round 1 1, StartAuction 7 1000 100),
      (at_round 2 4, PlaceBid 7 (pays 1000000))]"

text \<open>A physical asset with custodian 4 and authenticator 5, as minted.\<close>

definition rwa_minted :: muse_state where
  "rwa_minted = state_after [(at_round 0 1, MintRwa 7 55 4 5 1000000 1000 500 0 0)]"

section \<open>Properties\<close>

lemmas arith_defs = add64_def sub64_def mul64_def u64_max_def

lemmas const_defs = MUSE_FEE_BPS_def MAX_ROYALTY_BPS_def BASIS_POINTS_def
  ROUNDS_PER_MONTH_def ANTI_SNIPE_ROUNDS_def

lemmas flag_defs = FLAG_IS_RWA_def FLAG_RWA_AUTH_def FLAG_RWA_REDEEMED_def
  FLAG_ROYALTY_WAIVED_def FLAG_IN_AUCTION_def FLAG_COLLAB_PENDING_def

lemmas run_defs = at_round_def pays_def create_def zero_address_def state_after_def

lemmas op_defs = mint_nft_def mint_rwa_def validate_physical_asset_def
  redeem_physical_asset_def register_co_creators_def accept_collaboration_def buy_nft_def
  buy_out_royalty_def start_auction_def place_bid_def settle_auction_def update_treasury_def
  current_royalty_bps_def decayed_def distribute_royalties_def net_to_seller_def entries_def

subsection \<open>The concrete states\<close>

lemma bid_once_auction:
  "auc_boxes bid_once 7 =
     Some \<lparr>first_slot = 100, end_round = 1001, highest_bid = 150,
           highest_bidder = 4, seller = 1\<rparr>"
  by (simp add: bid_once_def op_defs run_defs arith_defs const_defs flag_defs)

lemma auction_open_auction:
  "auc_boxes auction_open 7 =
     Some \<lparr>first_slot = 100, end_round = 1001, highest_bid = 0,
           highest_bidder = 0, seller = 1\<rparr>"
  by (simp add: auction_open_def op_defs run_defs arith_defs const_defs flag_defs)

lemma auction_open_nft:
  "nft_boxes auction_open 7 =
     Some \<lparr>asset_id = 7, price = 0, royalty_bps = 1000, floor_bps = 0, decay_start = 0,
           buyout_price = 0, transfers = 0, flags = 16, creator = 1\<rparr>"
  by (simp add: auction_open_def op_defs run_defs arith_defs const_defs flag_defs)

lemma auction_open_counters:
  "live_auctions auction_open = 1" "total_volume auction_open = 0"
  "total_royalties_paid auction_open = 0" "nft_count auction_open = 1"
  by (simp_all add: auction_open_def op_defs run_defs arith_defs const_defs flag_defs)

lemma listed_with_splits_nft:
  "nft_boxes listed_with_splits 7 =
     Some \<lparr>asset_id = 7, price = 1000000, royalty_bps = 1000, floor_bps = 0, decay_start = 0,
           buyout_price = 0, transfers = 0, flags = 32, creator = 1\<rparr>"
  by (simp add: listed_with_splits_def op_defs run_defs arith_defs const_defs flag_defs)

subsection \<open>The decay of the royalty\<close>

text \<open>
  C2. The claim: with the waiver flag clear, \<open>decay_start > 0\<close> and \<open>now \<ge> decay_start\<close>, the
  royalty computed is
  \<open>max(royalty_bps - (royalty_bps - floor_bps) * ((now - decay_start) / ROUNDS_PER_MONTH) / 100, floor_bps)\<close>
  for every input, however large \<open>now - decay_start\<close> is.

  The contract computes \<open>royalty - (royalty - floor_bps) * decay_ratio / 100\<close> in unsigned
  arithmetic before it compares with the floor. Asset 7 is minted by \<open>mint_nft\<close> with a
  royalty of 1000, a floor of 0 and the decay starting at round 1. After 100 months the
  computation returns the floor, 0. After 101 months the amount to subtract is 1010, above
  the royalty: the subtraction fails and the call is rejected, where the formula of the
  claim gives \<open>max(1000 - 1010, 0) = 0\<close>. From then on neither \<open>buy_nft\<close> nor
  \<open>settle_auction\<close> with a bidder can complete for this asset.
\<close>

theorem current_royalty_bps_fails_after_full_decay:
  "(case run (create 9) [(at_round 0 1, MintNft 7 1000000 1000 0 1 0)] of
      Inl err \<Rightarrow> False
    | Inr (s, effs) \<Rightarrow>
        current_royalty_bps s (1 + 100 * 777600) 7 = Inr 0 \<and>
        current_royalty_bps s (1 + 101 * 777600) 7 = Inl Panic \<and>
        max (int 1000 - int ((1000 - 0) * ((1 + 101 * 777600 - 1) div 777600) div 100)) 0 = 0)"
  by (simp add: op_defs run_defs arith_defs const_defs flag_defs)

text \<open>
  C4. The claim: with \<open>decay_start > 0\<close> and the waiver flag clear the royalty never rises
  as \<open>now\<close> grows and is never below \<open>floor_bps\<close>; with the waiver flag set it is 0.

  Two runs of the contract. In the first, \<open>mint_rwa\<close>, which lacks the assertion
  \<open>floor_bps <= royalty_bps\<close> of \<open>mint_nft\<close>, stores a record with royalty 100 and floor
  500; before the decay starts the royalty computed is 100, below the floor, and from the
  start of the decay on the computation fails. In the second, a record minted by
  \<open>mint_nft\<close> with royalty 1000 and floor 500 has the royalty 500 after 200 months, and
  after 201 months the computation fails instead of returning 500 again.
\<close>

theorem current_royalty_bps_below_floor_or_failing:
  "(case run (create 9) [(at_round 0 1, MintRwa 7 55 4 5 1000000 100 500 10 0)] of
      Inl err \<Rightarrow> False
    | Inr (s, effs) \<Rightarrow>
        map_option floor_bps (nft_boxes s 7) = Some 500 \<and>
        current_royalty_bps s 5 7 = Inr 100 \<and>
        current_royalty_bps s 10 7 = Inl Panic) \<and>
   (case run (create 9) [(at_round 0 1, MintNft 7 1000000 1000 500 1 0)] of
      Inl err \<Rightarrow> False
    | Inr (s, effs) \<Rightarrow>
        current_royalty_bps s (1 + 200 * 777600) 7 = Inr 500 \<and>
        current_royalty_bps s (1 + 201 * 777600) 7 = Inl Panic)"
  by (simp add: op_defs run_defs arith_defs const_defs flag_defs)

subsection \<open>Bids\<close>

text \<open>
  C3. The claim: \<open>place_bid\<close> fails unless the bid is above \<open>highest_bid\<close> and at least the
  reserve price given to \<open>start_auction\<close>; a bid below the reserve on an auction without
  bids is rejected.

  Asset 7 is put up for auction with a reserve price of 100, which \<open>start_auction\<close> stores
  in the first slot of the auction box. A first bid of 50 is accepted: it becomes the
  highest bid and its sender the highest bidder.
\<close>

theorem place_bid_accepts_bid_below_reserve:
  "(case run (create 9)
          [(at_round 0 1, MintNft 7 0 1000 0 0 0),
           (at_round 1 1, StartAuction 7 1000 100),
           (at_round 2 4, PlaceBid 7 (pays 50))] of
      Inl err \<Rightarrow> False
    | Inr (s, effs) \<Rightarrow>
        map_option first_slot (auc_boxes s 7) = Some 100 \<and>
        map_option highest_bid (auc_boxes s 7) = Some 50 \<and>
        map_option highest_bidder (auc_boxes s 7) = Some 4)"
  by (simp add: op_defs run_defs arith_defs const_defs flag_defs)

text \<open>
  C5. Every successful \<open>place_bid\<close> on an auction that has a highest bidder submits exactly
  one inner transaction, the payment of the previous highest bid to the previous highest
  bidder, and records the new bid and bidder in the same call. A call that fails returns
  no state and no inner transaction, so the new bid is never recorded without the refund
  nor the refund paid without the new bid.
\<close>

theorem place_bid_refunds_previous_bidder:
  assumes "place_bid e s aid pay = Inr (s', effs)"
    and "auc_boxes s aid = Some a"
    and "highest_bidder a \<noteq> zero_address"
  shows "effs = [Payment (highest_bidder a) (highest_bid a)] \<and>
         s' = s\<lparr>auc_boxes := (auc_boxes s)(aid \<mapsto>
                  a\<lparr>highest_bid := amount pay, highest_bidder := sender e,
                    end_round := (if end_round a - cur_round e < 75
                                  then end_round a + 75 else end_round a)\<rparr>)\<rparr> \<and>
         highest_bid a < amount pay"
  using assms
  by (auto simp: place_bid_def arith_defs const_defs split: if_splits option.splits)

theorem place_bid_refunds_previous_bidder_witness:
  "(case place_bid (at_round 3 6) bid_once 7 (pays 200) of
      Inl err \<Rightarrow> False
    | Inr (s', effs) \<Rightarrow>
        effs = [Payment 4 150] \<and>
        map_option highest_bid (auc_boxes s' 7) = Some 200 \<and>
        map_option highest_bidder (auc_boxes s' 7) = Some 6)"
proof -
  obtain s' effs where bid: "place_bid (at_round 3 6) bid_once 7 (pays 200) = Inr (s', effs)"
    by (cases "place_bid (at_round 3 6) bid_once 7 (pays 200)")
       (auto simp: bid_once_auction place_bid_def run_defs arith_defs const_defs)
  have z: "highest_bidder \<lparr>first_slot = 100, end_round = 1001, highest_bid = 150,
             highest_bidder = 4, seller = 1\<rparr> \<noteq> zero_address"
    by (simp add: zero_address_def)
  from place_bid_refunds_previous_bidder [OF bid bid_once_auction z] bid show ?thesis
    by (simp add: run_defs)
qed

text \<open>
  C6. A bid that \<open>place_bid\<close> accepts when fewer than 75 rounds are left moves \<open>end_round\<close>
  to \<open>end_round + 75\<close>; a bid accepted earlier leaves \<open>end_round\<close> as it is. The rule is
  applied again at every bid: \<open>n\<close> bids, each placed in the last round of the auction as
  it then stands, are all accepted and move \<open>end_round\<close> by \<open>75 * n\<close>, for every \<open>n\<close> that
  the 64 bits of the field allow.
\<close>

theorem place_bid_extends_late_auction:
  assumes "auc_boxes s aid = Some a"
  shows "(\<forall>e pay s' effs. place_bid e s aid pay = Inr (s', effs) \<longrightarrow>
            (\<exists>a'. auc_boxes s' aid = Some a' \<and>
               end_round a' = (if end_round a - cur_round e < 75 then end_round a + 75
                               else end_round a))) \<and>
         (0 < end_round a \<and> end_round a + 75 * n \<le> u64_max \<longrightarrow>
            (\<exists>s' effs a'.
               run s (late_bids app who aid (end_round a) (highest_bid a) n) = Inr (s', effs) \<and>
               auc_boxes s' aid = Some a' \<and> end_round a' = end_round a + 75 * n))"
proof (intro conjI allI impI)
  fix e pay s' effs
  assume "place_bid e s aid pay = Inr (s', effs)"
  with assms show "\<exists>a'. auc_boxes s' aid = Some a' \<and>
      end_round a' = (if end_round a - cur_round e < 75 then end_round a + 75 else end_round a)"
    by (auto simp: place_bid_def arith_defs const_defs split: if_splits option.splits)
next
  assume "0 < end_round a \<and> end_round a + 75 * n \<le> u64_max"
  with assms show "\<exists>s' effs a'.
      run s (late_bids app who aid (end_round a) (highest_bid a) n) = Inr (s', effs) \<and>
      auc_boxes s' aid = Some a' \<and> end_round a' = end_round a + 75 * n"
  proof (induction n arbitrary: s a)
    case 0
    then show ?case by simp
  next
    case (Suc n)
    let ?a1 = "a\<lparr>highest_bid := highest_bid a + 1, highest_bidder := who,
                  end_round := end_round a + 75\<rparr>"
    let ?s1 = "s\<lparr>auc_boxes := (auc_boxes s)(aid \<mapsto> ?a1)\<rparr>"
    have first: "place_bid
        \<lparr>cur_round = end_round a - 1, sender = who, app_address = app, creator_address = who\<rparr>
        s aid \<lparr>receiver = app, amount = highest_bid a + 1\<rparr> =
      Inr (?s1, if highest_bidder a \<noteq> zero_address
                then [Payment (highest_bidder a) (highest_bid a)] else [])"
      using Suc.prems by (simp add: place_bid_def arith_defs const_defs)
    have box: "auc_boxes ?s1 aid = Some ?a1" by simp
    have fits: "0 < end_round ?a1 \<and> end_round ?a1 + 75 * n \<le> u64_max"
      using Suc.prems by simp
    from Suc.IH [OF box fits]
    obtain s' effs a' where rest:
      "run ?s1 (late_bids app who aid (end_round a + 75) (highest_bid a + 1) n) = Inr (s', effs)"
      "auc_boxes s' aid = Some a'" "end_round a' = end_round a + 75 + 75 * n"
      by auto
    show ?case using first rest by (simp add: const_defs)
  qed
qed

theorem place_bid_extends_late_auction_witness:
  "(case place_bid (at_round 3 6) bid_once 7 (pays 200) of
      Inl err \<Rightarrow> False
    | Inr (s', effs) \<Rightarrow> map_option end_round (auc_boxes s' 7) = Some 1001) \<and>
   (case place_bid (at_round 927 6) bid_once 7 (pays 200) of
      Inl err \<Rightarrow> False
    | Inr (s', effs) \<Rightarrow> map_option end_round (auc_boxes s' 7) = Some 1076) \<and>
   (case run bid_once (late_bids 2 6 7 1001 150 3) of
      Inl err \<Rightarrow> False
    | Inr (s', effs) \<Rightarrow> map_option end_round (auc_boxes s' 7) = Some 1226)"
proof -
  note rule = place_bid_extends_late_auction [OF bid_once_auction, of 3 2 6]
  obtain s1 effs1 where early: "place_bid (at_round 3 6) bid_once 7 (pays 200) = Inr (s1, effs1)"
    by (cases "place_bid (at_round 3 6) bid_once 7 (pays 200)")
       (auto simp: bid_once_auction place_bid_def run_defs arith_defs const_defs)
  obtain s2 effs2 where late: "place_bid (at_round 927 6) bid_once 7 (pays 200) = Inr (s2, effs2)"
    by (cases "place_bid (at_round 927 6) bid_once 7 (pays 200)")
       (auto simp: bid_once_auction place_bid_def run_defs arith_defs const_defs)
  have room: "0 < end_round \<lparr>first_slot = 100, end_round = 1001, highest_bid = 150,
                  highest_bidder = 4, seller = 1\<rparr> \<and>
              end_round \<lparr>first_slot = 100, end_round = 1001, highest_bid = 150,
                  highest_bidder = 4, seller = 1\<rparr> + 75 * 3 \<le> u64_max"
    by (simp add: u64_max_def)
  from rule [THEN conjunct1, rule_format, OF early]
  have one: "map_option end_round (auc_boxes s1 7) = Some 1001"
    by (auto simp: at_round_def)
  from rule [THEN conjunct1, rule_format, OF late]
  have two: "map_option end_round (auc_boxes s2 7) = Some 1076"
    by (auto simp: at_round_def)
  from rule [THEN conjunct2, rule_format, OF room]
  obtain s3 effs3 a3 where
    "run bid_once (late_bids 2 6 7 1001 150 3) = Inr (s3, effs3)"
    "auc_boxes s3 7 = Some a3" "end_round a3 = 1226"
    by auto
  with early late one two show ?thesis by simp
qed

subsection \<open>Settling an auction without a bidder\<close>

text \<open>
  C9. When the auction has no bidder and its end round has come, \<open>settle_auction\<close> succeeds
  as soon as the record of the asset exists and \<open>live_auctions\<close> is not 0, and whenever it
  succeeds it submits one inner transaction, the transfer of the asset to the seller stored
  in the auction box, and no payment; it deletes the auction box, clears \<open>IN_AUCTION\<close> in
  the record and takes 1 from \<open>live_auctions\<close>. Nothing else in the state changes:
  \<open>total_volume\<close>, \<open>total_royalties_paid\<close>, \<open>nft_count\<close> and the transfer count of the
  record are the same.
\<close>

theorem settle_auction_without_bidder:
  assumes "auc_boxes s aid = Some a"
    and "highest_bidder a = zero_address"
    and "end_round a \<le> cur_round e"
  shows "(\<forall>r. nft_boxes s aid = Some r \<and> 0 < live_auctions s \<longrightarrow>
            settle_auction e s aid =
              Inr (s\<lparr>nft_boxes := (nft_boxes s)(aid \<mapsto>
                        r\<lparr>flags := flags r AND NOT FLAG_IN_AUCTION\<rparr>),
                      auc_boxes := (auc_boxes s)(aid := None),
                      live_auctions := live_auctions s - 1\<rparr>,
                   [AssetTransfer aid None (seller a) 1])) \<and>
         (\<forall>s' effs. settle_auction e s aid = Inr (s', effs) \<longrightarrow>
            effs = [AssetTransfer aid None (seller a) 1] \<and>
            payments_total effs = 0 \<and>
            auc_boxes s' = (auc_boxes s)(aid := None) \<and>
            (\<exists>r. nft_boxes s aid = Some r \<and>
                 nft_boxes s' = (nft_boxes s)(aid \<mapsto>
                   r\<lparr>flags := flags r AND NOT FLAG_IN_AUCTION\<rparr>)) \<and>
            map_option transfers (nft_boxes s' aid) = map_option transfers (nft_boxes s aid) \<and>
            live_auctions s' + 1 = live_auctions s \<and>
            total_volume s' = total_volume s \<and>
            total_royalties_paid s' = total_royalties_paid s \<and>
            nft_count s' = nft_count s \<and>
            muse_treasury s' = muse_treasury s \<and>
            spl_boxes s' = spl_boxes s \<and>
            rwa_boxes s' = rwa_boxes s)"
proof (rule conjI)
  show "\<forall>r. nft_boxes s aid = Some r \<and> 0 < live_auctions s \<longrightarrow>
          settle_auction e s aid =
            Inr (s\<lparr>nft_boxes := (nft_boxes s)(aid \<mapsto>
                      r\<lparr>flags := flags r AND NOT FLAG_IN_AUCTION\<rparr>),
                    auc_boxes := (auc_boxes s)(aid := None),
                    live_auctions := live_auctions s - 1\<rparr>,
                 [AssetTransfer aid None (seller a) 1])"
    using assms by (simp add: settle_auction_def arith_defs)
next
  show "\<forall>s' effs. settle_auction e s aid = Inr (s', effs) \<longrightarrow>
          effs = [AssetTransfer aid None (seller a) 1] \<and>
          payments_total effs = 0 \<and>
          auc_boxes s' = (auc_boxes s)(aid := None) \<and>
          (\<exists>r. nft_boxes s aid = Some r \<and>
               nft_boxes s' = (nft_boxes s)(aid \<mapsto>
                 r\<lparr>flags := flags r AND NOT FLAG_IN_AUCTION\<rparr>)) \<and>
          map_option transfers (nft_boxes s' aid) = map_option transfers (nft_boxes s aid) \<and>
          live_auctions s' + 1 = live_auctions s \<and>
          total_volume s' = total_volume s \<and>
          total_royalties_paid s' = total_royalties_paid s \<and>
          nft_count s' = nft_count s \<and>
          muse_treasury s' = muse_treasury s \<and>
          spl_boxes s' = spl_boxes s \<and>
          rwa_boxes s' = rwa_boxes s"
  proof (intro allI impI)
    fix s' effs
    assume ok: "settle_auction e s aid = Inr (s', effs)"
    obtain r where r: "nft_boxes s aid = Some r"
      using ok assms by (cases "nft_boxes s aid") (simp_all add: settle_auction_def)
    have pos: "0 < live_auctions s"
      using ok assms r by (cases "live_auctions s") (simp_all add: settle_auction_def arith_defs)
    have res: "s' = s\<lparr>nft_boxes := (nft_boxes s)(aid \<mapsto>
                        r\<lparr>flags := flags r AND NOT FLAG_IN_AUCTION\<rparr>),
                      auc_boxes := (auc_boxes s)(aid := None),
                      live_auctions := live_auctions s - 1\<rparr>"
      "effs = [AssetTransfer aid None (seller a) 1]"
      using ok assms r pos by (simp_all add: settle_auction_def arith_defs)
    show "effs = [AssetTransfer aid None (seller a) 1] \<and>
          payments_total effs = 0 \<and>
          auc_boxes s' = (auc_boxes s)(aid := None) \<and>
          (\<exists>r. nft_boxes s aid = Some r \<and>
               nft_boxes s' = (nft_boxes s)(aid \<mapsto>
                 r\<lparr>flags := flags r AND NOT FLAG_IN_AUCTION\<rparr>)) \<and>
          map_option transfers (nft_boxes s' aid) = map_option transfers (nft_boxes s aid) \<and>
          live_auctions s' + 1 = live_auctions s \<and>
          total_volume s' = total_volume s \<and>
          total_royalties_paid s' = total_royalties_paid s \<and>
          nft_count s' = nft_count s \<and>
          muse_treasury s' = muse_treasury s \<and>
          spl_boxes s' = spl_boxes s \<and>
          rwa_boxes s' = rwa_boxes s"
      unfolding res using r pos by (simp add: payments_total_def)
  qed
qed

theorem settle_auction_without_bidder_witness:
  "(case settle_auction (at_round 1001 6) auction_open 7 of
      Inl err \<Rightarrow> False
    | Inr (s', effs) \<Rightarrow>
        effs = [AssetTransfer 7 None 1 1] \<and> auc_boxes s' 7 = None \<and>
        map_option flags (nft_boxes s' 7) = Some 0 \<and>
        live_auctions s' = 0 \<and> total_volume s' = 0 \<and> total_royalties_paid s' = 0 \<and>
        nft_count s' = 1)"
proof -
  have z: "highest_bidder \<lparr>first_slot = 100, end_round = 1001, highest_bid = 0,
             highest_bidder = 0, seller = 1\<rparr> = zero_address"
    by (simp add: zero_address_def)
  have late: "end_round \<lparr>first_slot = 100, end_round = 1001, highest_bid = 0,
             highest_bidder = 0, seller = 1\<rparr> \<le> cur_round (at_round 1001 6)"
    by (simp add: at_round_def)
  have pre: "nft_boxes auction_open 7 =
        Some \<lparr>asset_id = 7, price = 0, royalty_bps = 1000, floor_bps = 0, decay_start = 0,
              buyout_price = 0, transfers = 0, flags = 16, creator = 1\<rparr> \<and>
      0 < live_auctions auction_open"
    by (simp add: auction_open_nft auction_open_counters)
  have cleared: "(16 :: flagword) AND NOT FLAG_IN_AUCTION = 0"
    by (simp add: flag_defs)
  from settle_auction_without_bidder
    [OF auction_open_auction z late, THEN conjunct1, rule_format, OF pre]
  have "settle_auction (at_round 1001 6) auction_open 7 =
      Inr (auction_open\<lparr>nft_boxes := (nft_boxes auction_open)(7 \<mapsto>
             \<lparr>asset_id = 7, price = 0, royalty_bps = 1000, floor_bps = 0, decay_start = 0,
              buyout_price = 0, transfers = 0, flags = 0, creator = 1\<rparr>),
           auc_boxes := (auc_boxes auction_open)(7 := None),
           live_auctions := live_auctions auction_open - 1\<rparr>,
         [AssetTransfer 7 None 1 1])"
    by (simp add: cleared)
  then show ?thesis
    by (simp add: auction_open_counters)
qed

subsection \<open>The guards of a purchase\<close>

text \<open>
  C7. \<open>buy_nft\<close> fails, returning neither a state nor an inner transaction, when the record
  does not exist, when the price is 0, when \<open>IN_AUCTION\<close> is set, when \<open>RWA_REDEEMED\<close> is
  set, when \<open>IS_RWA\<close> is set without \<open>RWA_AUTH\<close>, and when the amount of the payment is not
  the price, larger or smaller. The assertions are made in this order, each one reached
  only when those before it hold; between the assertion on the two RWA flags and the one on
  the amount the contract also asserts that the payment is made to the application.
\<close>

theorem buy_nft_guards:
  "(nft_boxes s aid = None \<longrightarrow> buy_nft e s aid pay = Inl NftMissing) \<and>
   (\<forall>r. nft_boxes s aid = Some r \<longrightarrow>
      (price r = 0 \<longrightarrow> buy_nft e s aid pay = Inl AuctionOnly) \<and>
      (price r \<noteq> 0 \<and> flags r AND FLAG_IN_AUCTION \<noteq> 0 \<longrightarrow>
         buy_nft e s aid pay = Inl InAuction) \<and>
      (price r \<noteq> 0 \<and> flags r AND FLAG_IN_AUCTION = 0 \<and> flags r AND FLAG_RWA_REDEEMED \<noteq> 0 \<longrightarrow>
         buy_nft e s aid pay = Inl RwaRedeemed) \<and>
      (price r \<noteq> 0 \<and> flags r AND FLAG_IN_AUCTION = 0 \<and> flags r AND FLAG_RWA_REDEEMED = 0 \<and>
       flags r AND FLAG_IS_RWA \<noteq> 0 \<and> flags r AND FLAG_RWA_AUTH = 0 \<longrightarrow>
         buy_nft e s aid pay = Inl RwaNotAuthenticated) \<and>
      (price r \<noteq> 0 \<and> flags r AND FLAG_IN_AUCTION = 0 \<and> flags r AND FLAG_RWA_REDEEMED = 0 \<and>
       (flags r AND FLAG_IS_RWA = 0 \<or> flags r AND FLAG_RWA_AUTH \<noteq> 0) \<and>
       receiver pay \<noteq> app_address e \<longrightarrow>
         buy_nft e s aid pay = Inl WrongReceiver) \<and>
      (price r \<noteq> 0 \<and> flags r AND FLAG_IN_AUCTION = 0 \<and> flags r AND FLAG_RWA_REDEEMED = 0 \<and>
       (flags r AND FLAG_IS_RWA = 0 \<or> flags r AND FLAG_RWA_AUTH \<noteq> 0) \<and>
       receiver pay = app_address e \<and> amount pay \<noteq> price r \<longrightarrow>
         buy_nft e s aid pay = Inl IncorrectPayment) \<and>
      (price r = 0 \<or> flags r AND FLAG_IN_AUCTION \<noteq> 0 \<or> flags r AND FLAG_RWA_REDEEMED \<noteq> 0 \<or>
       (flags r AND FLAG_IS_RWA \<noteq> 0 \<and> flags r AND FLAG_RWA_AUTH = 0) \<or>
       amount pay \<noteq> price r \<longrightarrow>
         buy_nft e s aid pay \<in> {Inl AuctionOnly, Inl InAuction, Inl RwaRedeemed,
           Inl RwaNotAuthenticated, Inl WrongReceiver, Inl IncorrectPayment}))"
  by (auto simp: buy_nft_def)

theorem buy_nft_guards_witness:
  "buy_nft (at_round 5 6) (create 9) 7 (pays 1000000) = Inl NftMissing \<and>
   buy_nft (at_round 5 6) listed_with_splits 7 (pays 999999) = Inl IncorrectPayment \<and>
   buy_nft (at_round 5 6) listed_with_splits 7 (pays 1000001) = Inl IncorrectPayment \<and>
   buy_nft (at_round 1001 6) auction_open 7 (pays 0) = Inl AuctionOnly"
proof -
  have none: "nft_boxes (create 9) 7 = None" by (simp add: create_def)
  have one: "buy_nft (at_round 5 6) (create 9) 7 (pays 1000000) = Inl NftMissing"
    using buy_nft_guards [of "create 9" 7 "at_round 5 6" "pays 1000000"] none by simp
  have two: "buy_nft (at_round 5 6) listed_with_splits 7 (pays 999999) = Inl IncorrectPayment"
    using buy_nft_guards [of listed_with_splits 7 "at_round 5 6" "pays 999999"]
    by (simp add: listed_with_splits_nft flag_defs run_defs)
  have three: "buy_nft (at_round 5 6) listed_with_splits 7 (pays 1000001) = Inl IncorrectPayment"
    using buy_nft_guards [of listed_with_splits 7 "at_round 5 6" "pays 1000001"]
    by (simp add: listed_with_splits_nft flag_defs run_defs)
  have four: "buy_nft (at_round 1001 6) auction_open 7 (pays 0) = Inl AuctionOnly"
    using buy_nft_guards [of auction_open 7 "at_round 1001 6" "pays 0"]
    by (simp add: auction_open_nft)
  from one two three four show ?thesis by simp
qed

end
